theory Spec2Isabelle
  imports Main "HOL-Library.Sublist" "HOL-Library.List_Lexorder" "HOL-Library.Char_ord"
begin

section \<open>The two server variants\<close>

text \<open>
  The repository holds two versions of the PostgreSQL MCP server. Both register the same
  four request handlers (list resources, read resource, list tools, call tool) on one
  server object and differ in their policies:
  \<^item> \<^verbatim>\<open>src/index.ts\<close>: resource URIs \<^verbatim>\<open>postgres://table/<name>\<close>, a whitelist check
    (\<^verbatim>\<open>isReadonly\<close>: the statement starts with "select" or "with"), failures flagged
    \<^verbatim>\<open>isError: true\<close>. Its definitions carry the suffix \<open>_index\<close>.
  \<^item> \<^verbatim>\<open>src/unnamed/part_000\<close>: resource URIs \<^verbatim>\<open>table:///<name>\<close>, a blacklist check
    (\<^verbatim>\<open>isWriteOperation\<close>), a validated table name on reads. Its definitions carry the
    suffix \<open>_part000\<close>, or the name of the source function where it has one.

  A handler is a function of the configuration (the write-allow flag), of the database
  as the driver answers during the request, and of the request. It returns what the
  handler returns or throws, together with the list of the statements it sent to the
  driver, in order.
\<close>

section \<open>JavaScript strings\<close>

text \<open>
  A string is a list of characters, each standing for one UTF-16 code unit; the type
  \<^typ>\<open>char\<close> holds the code units below 256 (ASCII and the Latin-1 supplement), and the
  model covers the texts made of them.
\<close>

text \<open>
  The characters that \<^verbatim>\<open>String.prototype.trim\<close> strips and that \<^verbatim>\<open>\s\<close> matches
  (WhiteSpace and LineTerminator of ECMAScript): TAB, LF, VT, FF, CR, SPACE and NBSP
  are the ones below 256.
\<close>

definition isWhiteSpace :: "char \<Rightarrow> bool" where
  "isWhiteSpace c =
     (c \<in> {CHR 0x09, CHR 0x0A, CHR 0x0B, CHR 0x0C, CHR 0x0D, CHR 0x20, CHR 0xA0})"

text \<open>The characters that \<^verbatim>\<open>.\<close> does not match in a regular expression without the s flag.\<close>

definition isLineTerminator :: "char \<Rightarrow> bool" where
  "isLineTerminator c = (c \<in> {CHR 0x0A, CHR 0x0D})"

definition trim :: "string \<Rightarrow> string" where
  "trim s = rev (dropWhile isWhiteSpace (rev (dropWhile isWhiteSpace s)))"

text \<open>
  \<^verbatim>\<open>String.prototype.toLowerCase\<close> on one code unit below 256: A--Z, and the Latin-1
  capitals U+00C0--U+00DE without the multiplication sign U+00D7, move up by 32.
\<close>

definition toLowerChar :: "char \<Rightarrow> char" where
  "toLowerChar c =
     (let n = (of_char c :: nat)
      in if (65 \<le> n \<and> n \<le> 90) \<or> (192 \<le> n \<and> n \<le> 222 \<and> n \<noteq> 215)
         then char_of (n + 32) else c)"

definition toLowerCase :: "string \<Rightarrow> string" where
  "toLowerCase s = map toLowerChar s"

text \<open>
  The canonical form under which a regular expression with the i flag (and without the
  u flag) compares characters: the upper case of the code unit, unless that is not one
  code unit or leaves a code unit of 128 or more for one below 128. The patterns of this
  program are ASCII letters, whose canonical form is the capital letter; a code unit of
  128 or more never has an ASCII canonical form, so it is kept as it is here.
\<close>

definition canonicalize :: "char \<Rightarrow> char" where
  "canonicalize c =
     (let n = (of_char c :: nat)
      in if 97 \<le> n \<and> n \<le> 122 then char_of (n - 32) else c)"

section \<open>The statement classifiers\<close>

datatype classification = ReadOnly | Write

text \<open>
  \<^verbatim>\<open>src/index.ts\<close>, lines 132--133:
  \<^verbatim>\<open>queryText.trim().toLowerCase().startsWith("select") || ... .startsWith("with")\<close>.
\<close>

definition isReadonly :: "string \<Rightarrow> bool" where
  "isReadonly queryText =
     (prefix ''select'' (toLowerCase (trim queryText)) \<or>
      prefix ''with'' (toLowerCase (trim queryText)))"

definition classify_index :: "string \<Rightarrow> classification" where
  "classify_index queryText = (if isReadonly queryText then ReadOnly else Write)"

text \<open>
  \<^verbatim>\<open>src/unnamed/part_000\<close>, lines 34--37. The regular expression
  \<^verbatim>\<open>/^\s*(INSERT|UPDATE|DELETE|CREATE|DROP|ALTER|TRUNCATE|REPLACE)\s/i\<close> matches when,
  after a run of white space, one of the alternatives stands, compared under the i flag,
  and a white space character follows it. No alternative starts with white space, so the
  run \<^verbatim>\<open>\s*\<close> is the whole leading white space.
\<close>

definition writeKeywords_alternatives :: "string list" where
  "writeKeywords_alternatives =
     [''INSERT'', ''UPDATE'', ''DELETE'', ''CREATE'', ''DROP'', ''ALTER'', ''TRUNCATE'',
      ''REPLACE'']"

definition matches_alternative :: "string \<Rightarrow> string \<Rightarrow> bool" where
  "matches_alternative k s =
     (map canonicalize (take (length k) s) = map canonicalize k \<and>
      (case drop (length k) s of [] \<Rightarrow> False | c # _ \<Rightarrow> isWhiteSpace c))"

definition writeKeywords_test :: "string \<Rightarrow> bool" where
  "writeKeywords_test s =
     list_ex (\<lambda>k. matches_alternative k (dropWhile isWhiteSpace s)) writeKeywords_alternatives"

definition isWriteOperation :: "string \<Rightarrow> bool" where
  "isWriteOperation query = writeKeywords_test (trim query)"

definition classify_part000 :: "string \<Rightarrow> classification" where
  "classify_part000 query = (if isWriteOperation query then Write else ReadOnly)"

section \<open>The database as the driver shows it\<close>

text \<open>A row of \<^verbatim>\<open>information_schema.tables\<close>, with the three columns the queries read.\<close>

record table_row =
  table_schema :: string
  table_name :: string
  table_type :: string

text \<open>
  The statements the handlers send: the two catalog queries, the column query and the
  bounded sample of \<^verbatim>\<open>src/index.ts\<close> and \<^verbatim>\<open>part_000\<close>, and \<^verbatim>\<open>sql.unsafe(text)\<close>.
\<close>

datatype db_call =
    SelectTables
  | SelectBaseTables
  | SelectColumns string
  | SelectSample string nat
  | Unsafe string

text \<open>
  What the database answers during one request: \<open>Inl message\<close> when the driver rejects
  with an error of that message, \<open>Inr rows\<close> otherwise. \<open>information_schema_tables\<close>
  is the content of the catalog relation, in the order the database scans it; the row
  sets of the other statements are of an abstract type \<open>'r\<close>.
\<close>

record 'r db =
  information_schema_tables :: "string + table_row list"
  select_columns :: "string \<Rightarrow> string + 'r"
  select_sample :: "string \<Rightarrow> nat \<Rightarrow> string + 'r"
  unsafe :: "string \<Rightarrow> string + 'r"

text \<open>
  \<^verbatim>\<open>src/index.ts\<close>, lines 46--50:
  \<^verbatim>\<open>SELECT table_name FROM information_schema.tables WHERE table_schema = 'public'\<close>.
  There is no ORDER BY: the rows come as the relation is scanned.
\<close>

definition select_tables :: "table_row list \<Rightarrow> string list" where
  "select_tables rows = map table_name (filter (\<lambda>r. table_schema r = ''public'') rows)"

text \<open>
  \<^verbatim>\<open>part_000\<close>, lines 41--47: the same with \<^verbatim>\<open>AND table_type = 'BASE TABLE'\<close> and
  \<^verbatim>\<open>ORDER BY table_name\<close>; names are compared character by character, by code.
\<close>

definition select_base_tables :: "table_row list \<Rightarrow> string list" where
  "select_base_tables rows =
     sort (map table_name
       (filter (\<lambda>r. table_schema r = ''public'' \<and> table_type r = ''BASE TABLE'') rows))"

text \<open>\<^verbatim>\<open>getTables\<close> of \<^verbatim>\<open>part_000\<close>, lines 40--49: when the driver rejects the query, so does \<^verbatim>\<open>getTables\<close>.\<close>

definition getTables :: "'r db \<Rightarrow> string + string list" where
  "getTables d =
     (case information_schema_tables d of
        Inl message \<Rightarrow> Inl message
      | Inr rows \<Rightarrow> Inr (select_base_tables rows))"

section \<open>Protocol values\<close>

text \<open>
  What a handler throws: \<open>Error\<close> is \<^verbatim>\<open>new Error(message)\<close>, \<open>ZodError\<close> the failure
  of \<^verbatim>\<open>parse\<close>, \<open>TypeError\<close> the failure of \<^verbatim>\<open>new URL\<close>, \<open>PostgresError\<close> a
  rejection of the driver that the handler does not catch.
\<close>

datatype fault = Error string | ZodError | TypeError | PostgresError string

datatype 'a outcome = Returns 'a | Throws fault

text \<open>
  The text of a content block: a string the handler builds, or
  \<^verbatim>\<open>JSON.stringify(rows, null, 2)\<close> of a row set, or
  \<^verbatim>\<open>JSON.stringify({schema: columns, sample: sampleData}, null, 2)\<close>, kept symbolic.
\<close>

datatype 'r body = Str string | Stringify 'r | StringifySchemaSample 'r 'r

text \<open>
  The objects of the protocol, with the keys of the source after a letter for the
  record (\<open>b_type\<close> is the key \<^verbatim>\<open>type\<close> of a content block, \<open>r_uri\<close> the key
  \<^verbatim>\<open>uri\<close> of a resource). In a tool result, \<open>isError = None\<close> is a result without
  the key.
\<close>

record 'r block =
  b_type :: string
  b_text :: "'r body"

record 'r tool_result =
  content :: "'r block list"
  isError :: "bool option"

record resource =
  r_uri :: string
  r_name :: string
  r_description :: string
  r_mimeType :: string

record 'r resource_content =
  c_uri :: string
  c_mimeType :: string
  c_text :: "'r body"

record input_schema =
  s_type :: string
  s_properties :: "(string \<times> string \<times> string) list"
  s_required :: "string list"

record tool =
  t_name :: string
  t_description :: string
  t_inputSchema :: input_schema

text \<open>
  A JSON value of the arguments is a string or something else; the arguments of a
  tool call are an object (a map from keys) or absent.
\<close>

datatype json = JString string | JOther

record call_request =
  params_name :: string
  params_arguments :: "(string \<rightharpoonup> json) option"

text \<open>
  \<^verbatim>\<open>z.object({key: z.string()}).parse(arguments)\<close>: the value under the key when the
  arguments are an object that holds a string there, \<open>None\<close> when \<^verbatim>\<open>parse\<close> throws.
\<close>

definition parse_string_field :: "string \<Rightarrow> (string \<rightharpoonup> json) option \<Rightarrow> string option" where
  "parse_string_field key arguments =
     (case arguments of
        None \<Rightarrow> None
      | Some obj \<Rightarrow>
          (case obj key of
             Some (JString s) \<Rightarrow> Some s
           | Some JOther \<Rightarrow> None
           | None \<Rightarrow> None))"

section \<open>The tool handlers\<close>

definition text_block :: "'r body \<Rightarrow> 'r block" where
  "text_block b = \<lparr>b_type = ''text'', b_text = b\<rparr>"

text \<open>\<^verbatim>\<open>src/index.ts\<close>, lines 100--119: the description does not read the flag.\<close>

definition listTools_index :: "bool \<Rightarrow> tool list" where
  "listTools_index allow =
     [\<lparr>t_name = ''query'',
       t_description =
         ''Execute a PostgreSQL query. By default, only SELECT queries are allowed unless write ops are enabled.'',
       t_inputSchema =
         \<lparr>s_type = ''object'',
          s_properties = [(''sql'', ''string'', ''The SQL query to execute'')],
          s_required = [''sql'']\<rparr>\<rparr>]"

text \<open>\<^verbatim>\<open>part_000\<close>, lines 66--87.\<close>

definition listTools_part000 :: "bool \<Rightarrow> tool list" where
  "listTools_part000 allow =
     [\<lparr>t_name = ''query'',
       t_description =
         (if allow then ''Execute a SQL query (read or write operations allowed)''
          else ''Execute a read-only SQL query (SELECT statements only)''),
       t_inputSchema =
         \<lparr>s_type = ''object'',
          s_properties = [(''query'', ''string'', ''SQL query to execute'')],
          s_required = [''query'']\<rparr>\<rparr>]"

text \<open>\<^verbatim>\<open>src/index.ts\<close>, lines 124--172.\<close>

definition refusal_index :: "'r tool_result" where
  "refusal_index =
     \<lparr>content =
        [text_block (Str
          ''Error: Only SELECT queries are allowed. Set DANGEROUSLY_ALLOW_WRITE_OPS=true to enable write operations.'')],
      isError = Some True\<rparr>"

definition callTool_index ::
  "bool \<Rightarrow> 'r db \<Rightarrow> call_request \<Rightarrow> 'r tool_result outcome \<times> db_call list" where
  "callTool_index allow d request =
     (if params_name request = ''query'' then
        (case parse_string_field ''sql'' (params_arguments request) of
           None \<Rightarrow> (Throws ZodError, [])
         | Some queryText \<Rightarrow>
             if \<not> allow \<and> \<not> isReadonly queryText then (Returns refusal_index, [])
             else
               (case unsafe d queryText of
                  Inr result \<Rightarrow>
                    (Returns \<lparr>content = [text_block (Stringify result)], isError = None\<rparr>,
                     [Unsafe queryText])
                | Inl message \<Rightarrow>
                    (Returns
                       \<lparr>content = [text_block (Str (''Query error: '' @ message))],
                        isError = Some True\<rparr>,
                     [Unsafe queryText])))
      else (Throws (Error (''Tool not found: '' @ params_name request)), []))"

text \<open>\<^verbatim>\<open>part_000\<close>, lines 90--130: no result carries the key \<^verbatim>\<open>isError\<close>.\<close>

definition refusal_part000 :: "'r tool_result" where
  "refusal_part000 =
     \<lparr>content =
        [text_block (Str
          ''Error: Write operations are not allowed. Set DANGEROUSLY_ALLOW_WRITE_OPS=true to enable write operations.'')],
      isError = None\<rparr>"

definition callTool_part000 ::
  "bool \<Rightarrow> 'r db \<Rightarrow> call_request \<Rightarrow> 'r tool_result outcome \<times> db_call list" where
  "callTool_part000 allow d request =
     (if params_name request = ''query'' then
        (case parse_string_field ''query'' (params_arguments request) of
           None \<Rightarrow> (Throws ZodError, [])
         | Some query \<Rightarrow>
             if isWriteOperation query \<and> \<not> allow then (Returns refusal_part000, [])
             else
               (case unsafe d query of
                  Inr result \<Rightarrow>
                    (Returns \<lparr>content = [text_block (Stringify result)], isError = None\<rparr>,
                     [Unsafe query])
                | Inl message \<Rightarrow>
                    (Returns
                       \<lparr>content = [text_block (Str (''Error executing query: '' @ message))],
                        isError = None\<rparr>,
                     [Unsafe query])))
      else (Throws (Error (''Unknown tool: '' @ params_name request)), []))"

section \<open>The resource handlers of \<^verbatim>\<open>part_000\<close>\<close>

text \<open>Lines 133--148: the catch returns the empty list (and writes to the error stream).\<close>

definition resource_part000 :: "string \<Rightarrow> resource" where
  "resource_part000 table =
     \<lparr>r_uri = ''table:///'' @ table,
      r_name = table,
      r_description = ''PostgreSQL table: '' @ table,
      r_mimeType = ''application/json''\<rparr>"

definition listResources_part000 :: "'r db \<Rightarrow> resource list outcome \<times> db_call list" where
  "listResources_part000 d =
     (case getTables d of
        Inr tables \<Rightarrow> (Returns (map resource_part000 tables), [SelectBaseTables])
      | Inl message \<Rightarrow> (Returns [], [SelectBaseTables]))"

text \<open>
  Line 153, \<^verbatim>\<open>uri.match(/^table:\/\/\/(.+)$/)\<close>: the text after the nine characters
  \<^verbatim>\<open>table:///\<close> when it is not empty and holds no line terminator, which \<^verbatim>\<open>.\<close> does
  not match.
\<close>

definition match_table_uri :: "string \<Rightarrow> string option" where
  "match_table_uri uri =
     (if prefix ''table:///'' uri \<and> drop 9 uri \<noteq> [] \<and>
         list_all (\<lambda>c. \<not> isLineTerminator c) (drop 9 uri)
      then Some (drop 9 uri) else None)"

text \<open>
  Lines 161--179, the body of the try block: \<open>Inl message\<close> is an error of that message
  thrown inside it, by the driver or by the check of the table name.
\<close>

definition readTable_part000 :: "'r db \<Rightarrow> string \<Rightarrow> (string + 'r) \<times> db_call list" where
  "readTable_part000 d tableName =
     (case getTables d of
        Inl message \<Rightarrow> (Inl message, [SelectBaseTables])
      | Inr tables \<Rightarrow>
          if tableName \<notin> set tables
          then (Inl (''Table not found: '' @ tableName), [SelectBaseTables])
          else
            (case select_sample d tableName 100 of
               Inl message \<Rightarrow> (Inl message, [SelectBaseTables, SelectSample tableName 100])
             | Inr rows \<Rightarrow> (Inr rows, [SelectBaseTables, SelectSample tableName 100])))"

text \<open>Lines 151--183: the catch wraps the message and throws again.\<close>

definition readResource_part000 ::
  "'r db \<Rightarrow> string \<Rightarrow> 'r resource_content list outcome \<times> db_call list" where
  "readResource_part000 d uri =
     (case match_table_uri uri of
        None \<Rightarrow> (Throws (Error (''Invalid resource URI: '' @ uri)), [])
      | Some tableName \<Rightarrow>
          (case readTable_part000 d tableName of
             (Inr rows, calls) \<Rightarrow>
               (Returns [\<lparr>c_uri = uri, c_mimeType = ''application/json'', c_text = Stringify rows\<rparr>],
                calls)
           | (Inl message, calls) \<Rightarrow>
               (Throws (Error (''Error reading table '' @ tableName @ '': '' @ message)),
                calls)))"

section \<open>The resource handlers of \<^verbatim>\<open>src/index.ts\<close>\<close>

text \<open>Lines 45--60: nothing catches a rejection of the catalog query.\<close>

definition resource_index :: "string \<Rightarrow> resource" where
  "resource_index name =
     \<lparr>r_uri = ''postgres://table/'' @ name,
      r_name = ''Table: '' @ name,
      r_description = ''Schema and sample data from the '' @ name @ '' table'',
      r_mimeType = ''application/json''\<rparr>"

definition listResources_index :: "'r db \<Rightarrow> resource list outcome \<times> db_call list" where
  "listResources_index d =
     (case information_schema_tables d of
        Inr rows \<Rightarrow> (Returns (map resource_index (select_tables rows)), [SelectTables])
      | Inl message \<Rightarrow> (Throws (PostgresError message), [SelectTables]))"

subsection \<open>The URL constructor\<close>

text \<open>
  \<^verbatim>\<open>new URL(text)\<close> is the platform's parser of the WHATWG URL standard; the handler
  reads \<^verbatim>\<open>protocol\<close> and \<^verbatim>\<open>pathname\<close> of its result. \<open>simple_url\<close> is that parser
  on the texts of the shape \<^verbatim>\<open>scheme://host/path\<close> where the scheme is not one of the six
  special schemes, and host and path hold only letters, digits, \<^verbatim>\<open>-\<close>, \<^verbatim>\<open>.\<close>, \<^verbatim>\<open>_\<close>,
  \<^verbatim>\<open>~\<close> (and \<^verbatim>\<open>/\<close> in the path). On them the standard goes through its states scheme,
  authority, host, path start and path without an error, a percent-encoding or a
  credential: the scheme is lower-cased, the text between \<^verbatim>\<open>//\<close> and the next \<^verbatim>\<open>/\<close> is the
  host, and the rest is the path, with its \<^verbatim>\<open>.\<close> and \<^verbatim>\<open>..\<close> segments resolved. Every
  other text is left to a parameter \<open>other\<close> of the handler, which stands for the parser
  there (\<open>None\<close> where it throws).
\<close>

record url =
  protocol :: string
  host :: string
  pathname :: string

definition isAsciiAlpha :: "char \<Rightarrow> bool" where
  "isAsciiAlpha c =
     (let n = (of_char c :: nat) in (65 \<le> n \<and> n \<le> 90) \<or> (97 \<le> n \<and> n \<le> 122))"

definition isAsciiAlphanumeric :: "char \<Rightarrow> bool" where
  "isAsciiAlphanumeric c =
     (let n = (of_char c :: nat) in isAsciiAlpha c \<or> (48 \<le> n \<and> n \<le> 57))"

definition isSchemeChar :: "char \<Rightarrow> bool" where
  "isSchemeChar c = (isAsciiAlphanumeric c \<or> c \<in> {CHR ''+'', CHR ''-'', CHR ''.''})"

definition isPlainChar :: "char \<Rightarrow> bool" where
  "isPlainChar c =
     (isAsciiAlphanumeric c \<or> c \<in> {CHR ''-'', CHR ''.'', CHR ''_'', CHR ''~''})"

definition special_schemes :: "string list" where
  "special_schemes = [''ftp'', ''file'', ''http'', ''https'', ''ws'', ''wss'']"

text \<open>The segments of a path, without its first \<^verbatim>\<open>/\<close>: the texts between the slashes.\<close>

fun split_slash :: "string \<Rightarrow> string list" where
  "split_slash [] = [[]]"
| "split_slash (c # cs) =
     (if c = CHR ''/'' then [] # split_slash cs
      else (case split_slash cs of
              [] \<Rightarrow> [[c]]
            | seg # segs \<Rightarrow> (c # seg) # segs))"

text \<open>
  The path state of the standard, one segment after the other: \<^verbatim>\<open>..\<close> drops the last
  segment of the path so far, \<^verbatim>\<open>.\<close> adds nothing, and either one, standing last, leaves
  an empty segment behind.
\<close>

fun path_state :: "string list \<Rightarrow> string list \<Rightarrow> string list" where
  "path_state path [] = path"
| "path_state path (buffer # rest) =
     (if buffer = ''..''
      then path_state (butlast path @ (if rest = [] then [[]] else [])) rest
      else if buffer = ''.''
      then path_state (path @ (if rest = [] then [[]] else [])) rest
      else path_state (path @ [buffer]) rest)"

definition serialize_path :: "string list \<Rightarrow> string" where
  "serialize_path path = concat (map (\<lambda>seg. CHR ''/'' # seg) path)"

definition simple_url :: "string \<Rightarrow> url option" where
  "simple_url input =
     (let scheme = takeWhile isSchemeChar input;
          remaining = dropWhile isSchemeChar input;
          authority = takeWhile isPlainChar (drop 3 remaining);
          path = dropWhile isPlainChar (drop 3 remaining)
      in if scheme \<noteq> [] \<and> isAsciiAlpha (hd scheme) \<and>
            toLowerCase scheme \<notin> set special_schemes \<and> prefix ''://'' remaining \<and>
            list_all (\<lambda>c. isPlainChar c \<or> c = CHR ''/'') path
         then Some
           \<lparr>protocol = toLowerCase scheme @ '':'',
            host = authority,
            pathname = (if path = [] then [] else serialize_path (path_state [] (split_slash (tl path))))\<rparr>
         else None)"

definition new_URL :: "(string \<Rightarrow> url option) \<Rightarrow> string \<Rightarrow> url option" where
  "new_URL other input =
     (case simple_url input of Some u \<Rightarrow> Some u | None \<Rightarrow> other input)"

text \<open>Line 71, \<^verbatim>\<open>url.pathname.replace(/^\/table\//, "")\<close>.\<close>

definition tableName_of_pathname :: "string \<Rightarrow> string" where
  "tableName_of_pathname p = (if prefix ''/table/'' p then drop 7 p else p)"

text \<open>
  Lines 65--95. The column query and the sample are sent for whatever name the path
  gives; nothing catches their rejections.
\<close>

definition readResource_index ::
  "(string \<Rightarrow> url option) \<Rightarrow> 'r db \<Rightarrow> string \<Rightarrow>
     'r resource_content list outcome \<times> db_call list" where
  "readResource_index other d uri =
     (case new_URL other uri of
        None \<Rightarrow> (Throws TypeError, [])
      | Some u \<Rightarrow>
          if protocol u \<noteq> ''postgres:''
          then (Throws (Error (''Unsupported protocol: '' @ protocol u)), [])
          else
            (let tableName = tableName_of_pathname (pathname u)
             in case select_columns d tableName of
                  Inl message \<Rightarrow> (Throws (PostgresError message), [SelectColumns tableName])
                | Inr columns \<Rightarrow>
                    (case select_sample d tableName 10 of
                       Inl message \<Rightarrow>
                         (Throws (PostgresError message),
                          [SelectColumns tableName, SelectSample tableName 10])
                     | Inr sampleData \<Rightarrow>
                         (Returns
                            [\<lparr>c_uri = uri, c_mimeType = ''application/json'',
                              c_text = StringifySchemaSample columns sampleData\<rparr>],
                          [SelectColumns tableName, SelectSample tableName 10]))))"

section \<open>A database and requests to run the handlers on\<close>

text \<open>
  A catalog with two base tables and a view in the schema \<^verbatim>\<open>public\<close> and a table of
  another schema, scanned in this order.
\<close>

definition shop_tables :: "table_row list" where
  "shop_tables =
     [\<lparr>table_schema = ''public'', table_name = ''orders'', table_type = ''BASE TABLE''\<rparr>,
      \<lparr>table_schema = ''public'', table_name = ''customers'', table_type = ''BASE TABLE''\<rparr>,
      \<lparr>table_schema = ''public'', table_name = ''active_customers'', table_type = ''VIEW''\<rparr>,
      \<lparr>table_schema = ''pg_catalog'', table_name = ''pg_class'', table_type = ''BASE TABLE''\<rparr>]"

text \<open>
  A database over that catalog whose row sets are texts: it has rows for the three
  relations of \<^verbatim>\<open>public\<close>, rejects a sample of any other name and rejects the
  statement \<^verbatim>\<open>SELEC 1\<close>.
\<close>

definition shop_db :: "string db" where
  "shop_db =
     \<lparr>information_schema_tables = Inr shop_tables,
      select_columns = (\<lambda>t. Inr ''columns''),
      select_sample =
        (\<lambda>t n. if t \<in> set [''orders'', ''customers'', ''active_customers'']
               then Inr ''rows'' else Inl ''relation does not exist''),
      unsafe = (\<lambda>q. if q = ''SELEC 1'' then Inl ''syntax error at or near SELEC''
                    else Inr ''result'')\<rparr>"

text \<open>A database that rejects every statement.\<close>

definition offline_db :: "string db" where
  "offline_db =
     \<lparr>information_schema_tables = Inl ''connection refused'',
      select_columns = (\<lambda>t. Inl ''connection refused''),
      select_sample = (\<lambda>t n. Inl ''connection refused''),
      unsafe = (\<lambda>q. Inl ''connection refused'')\<rparr>"

text \<open>A call of the tool \<^verbatim>\<open>query\<close> whose arguments hold one text under one key.\<close>

definition query_request :: "string \<Rightarrow> string \<Rightarrow> call_request" where
  "query_request key s =
     \<lparr>params_name = ''query'', params_arguments = Some [key \<mapsto> JString s]\<rparr>"

text \<open>A URL constructor that throws on every text outside \<open>simple_url\<close>.\<close>

definition no_other_url :: "string \<Rightarrow> url option" where
  "no_other_url input = None"

section \<open>The classifier on the examples\<close>

lemmas js_string_defs =
  isWhiteSpace_def trim_def toLowerChar_def toLowerCase_def canonicalize_def char_of_def
  bit_Suc_0_iff

lemmas classifier_defs =
  isReadonly_def classify_index_def writeKeywords_alternatives_def matches_alternative_def
  writeKeywords_test_def isWriteOperation_def classify_part000_def

text \<open>
  Claim C6. Both classifiers give the four answers of the examples: the two reads are
  ReadOnly, with leading white space tolerated, and the two deletes are Write, in capitals
  and in small letters.
\<close>

theorem classify_examples:
  "classify_index ''SELECT * FROM t'' = ReadOnly \<and>
   classify_index ''  with cte as (...) select 1'' = ReadOnly \<and>
   classify_index ''DELETE FROM t'' = Write \<and>
   classify_index ''delete from t'' = Write \<and>
   classify_part000 ''SELECT * FROM t'' = ReadOnly \<and>
   classify_part000 ''  with cte as (...) select 1'' = ReadOnly \<and>
   classify_part000 ''DELETE FROM t'' = Write \<and>
   classify_part000 ''delete from t'' = Write"
  by (simp add: js_string_defs classifier_defs)

section \<open>The write check of the tool \<^verbatim>\<open>query\<close>\<close>

lemma parse_query_request:
  "parse_string_field key (params_arguments (query_request key s)) = Some s"
  by (simp add: parse_string_field_def query_request_def)

lemma name_query_request: "params_name (query_request key s) = ''query''"
  by (simp add: query_request_def)



text \<open>
  Claim C2, as stated, fails on \<^verbatim>\<open>part_000\<close>: with the flag off, the refused
  \<^verbatim>\<open>DROP TABLE t\<close> and the rejected \<^verbatim>\<open>SELEC 1\<close> both come back as results without
  the key \<^verbatim>\<open>isError\<close>.
\<close>

theorem query_failure_unflagged_part000:
  "callTool_part000 False shop_db (query_request ''query'' ''DROP TABLE t'') =
     (Returns
        \<lparr>content =
           [text_block (Str
             ''Error: Write operations are not allowed. Set DANGEROUSLY_ALLOW_WRITE_OPS=true to enable write operations.'')],
         isError = None\<rparr>, []) \<and>
   callTool_part000 False shop_db (query_request ''query'' ''SELEC 1'') =
     (Returns
        \<lparr>content = [text_block (Str ''Error executing query: syntax error at or near SELEC'')],
         isError = None\<rparr>, [Unsafe ''SELEC 1''])"
  by (simp add: callTool_part000_def name_query_request parse_query_request refusal_part000_def
      shop_db_def js_string_defs classifier_defs)

text \<open>
  Claim C2, amended. For a call of the tool \<^verbatim>\<open>query\<close> whose arguments validate, a
  write refused by the policy and a statement the database rejects both end in a
  returned result, never a thrown error, whose one text block holds the policy message
  or the message of the database after a fixed prefix. \<^verbatim>\<open>src/index.ts\<close> flags both
  results \<^verbatim>\<open>isError: true\<close>; \<^verbatim>\<open>part_000\<close> returns them without the key.
\<close>

theorem query_failures_are_returned:
  assumes "params_name request = ''query''"
  shows
    "(parse_string_field ''sql'' (params_arguments request) = Some queryText \<longrightarrow>
        (\<exists>result. fst (callTool_index allow d request) = Returns result) \<and>
        (\<not> allow \<and> classify_index queryText = Write \<longrightarrow>
           fst (callTool_index allow d request) =
             Returns
               \<lparr>content =
                  [text_block (Str
                    ''Error: Only SELECT queries are allowed. Set DANGEROUSLY_ALLOW_WRITE_OPS=true to enable write operations.'')],
                isError = Some True\<rparr>) \<and>
        ((allow \<or> classify_index queryText = ReadOnly) \<and> unsafe d queryText = Inl message \<longrightarrow>
           fst (callTool_index allow d request) =
             Returns
               \<lparr>content = [text_block (Str (''Query error: '' @ message))],
                isError = Some True\<rparr>)) \<and>
     (parse_string_field ''query'' (params_arguments request) = Some query \<longrightarrow>
        (\<exists>result. fst (callTool_part000 allow d request) = Returns result) \<and>
        (\<not> allow \<and> classify_part000 query = Write \<longrightarrow>
           fst (callTool_part000 allow d request) =
             Returns
               \<lparr>content =
                  [text_block (Str
                    ''Error: Write operations are not allowed. Set DANGEROUSLY_ALLOW_WRITE_OPS=true to enable write operations.'')],
                isError = None\<rparr>) \<and>
        ((allow \<or> classify_part000 query = ReadOnly) \<and> unsafe d query = Inl message \<longrightarrow>
           fst (callTool_part000 allow d request) =
             Returns
               \<lparr>content = [text_block (Str (''Error executing query: '' @ message))],
                isError = None\<rparr>))"
  using assms
  by (auto simp: callTool_index_def callTool_part000_def classify_index_def
      classify_part000_def refusal_index_def refusal_part000_def split: sum.splits if_splits)

theorem query_failures_are_returned_witness:
  "params_name (query_request ''sql'' ''SELEC 1'') = ''query'' \<and>
   parse_string_field ''sql'' (params_arguments (query_request ''sql'' ''SELEC 1'')) =
     Some ''SELEC 1'' \<and>
   unsafe shop_db ''SELEC 1'' = Inl ''syntax error at or near SELEC'' \<and>
   fst (callTool_index True shop_db (query_request ''sql'' ''SELEC 1'')) =
     Returns
       \<lparr>content = [text_block (Str ''Query error: syntax error at or near SELEC'')],
        isError = Some True\<rparr> \<and>
   classify_index ''SELEC 1'' = Write \<and>
   fst (callTool_index False shop_db (query_request ''sql'' ''SELEC 1'')) =
     Returns
       \<lparr>content =
          [text_block (Str
            ''Error: Only SELECT queries are allowed. Set DANGEROUSLY_ALLOW_WRITE_OPS=true to enable write operations.'')],
        isError = Some True\<rparr> \<and>
   params_name (query_request ''query'' ''SELEC 1'') = ''query'' \<and>
   parse_string_field ''query'' (params_arguments (query_request ''query'' ''SELEC 1'')) =
     Some ''SELEC 1'' \<and>
   classify_part000 ''SELEC 1'' = ReadOnly \<and>
   fst (callTool_part000 False shop_db (query_request ''query'' ''SELEC 1'')) =
     Returns
       \<lparr>content = [text_block (Str ''Error executing query: syntax error at or near SELEC'')],
        isError = None\<rparr>"
proof -
  have ci: "classify_index ''SELEC 1'' = Write"
    by (simp add: js_string_defs classifier_defs)
  have cp: "classify_part000 ''SELEC 1'' = ReadOnly"
    by (simp add: js_string_defs classifier_defs)
  have u: "unsafe shop_db ''SELEC 1'' = Inl ''syntax error at or near SELEC''"
    by (simp add: shop_db_def)
  note n = name_query_request
  note p = parse_query_request
  from query_failures_are_returned [OF n, of "''sql''" "''SELEC 1''" "''SELEC 1''" True
      shop_db "''syntax error at or near SELEC''" "''SELEC 1''"]
    query_failures_are_returned [OF n, of "''sql''" "''SELEC 1''" "''SELEC 1''" False
      shop_db "''syntax error at or near SELEC''" "''SELEC 1''"]
    query_failures_are_returned [OF n, of "''query''" "''SELEC 1''" "''SELEC 1''" False
      shop_db "''syntax error at or near SELEC''" "''SELEC 1''"]
  show ?thesis
    by (simp add: ci cp n p u)
qed

text \<open>
  Claim C10. In \<^verbatim>\<open>src/index.ts\<close> with the flag off, a validated statement is sent to
  the database exactly when its trimmed, lower-cased text starts with the characters
  \<^verbatim>\<open>select\<close> or \<^verbatim>\<open>with\<close>, whatever follows them, and is refused with nothing sent
  otherwise: \<^verbatim>\<open>selectivity_test()\<close> and \<^verbatim>\<open>withdraw_funds()\<close> are ReadOnly, while
  EXPLAIN, SHOW and the empty text are Write.
\<close>

theorem whitelist_is_prefix_test:
  assumes "params_name request = ''query''"
    and "parse_string_field ''sql'' (params_arguments request) = Some queryText"
  shows
    "(prefix ''select'' (toLowerCase (trim queryText)) \<or>
      prefix ''with'' (toLowerCase (trim queryText)) \<longrightarrow>
        classify_index queryText = ReadOnly \<and>
        snd (callTool_index False d request) = [Unsafe queryText]) \<and>
     (\<not> prefix ''select'' (toLowerCase (trim queryText)) \<and>
      \<not> prefix ''with'' (toLowerCase (trim queryText)) \<longrightarrow>
        classify_index queryText = Write \<and>
        callTool_index False d request = (Returns refusal_index, [])) \<and>
     classify_index ''selectivity_test()'' = ReadOnly \<and>
     classify_index ''withdraw_funds()'' = ReadOnly \<and>
     classify_index ''EXPLAIN SELECT 1'' = Write \<and>
     classify_index ''SHOW search_path'' = Write \<and>
     classify_index [] = Write"
proof -
  have examples:
    "classify_index ''selectivity_test()'' = ReadOnly \<and>
     classify_index ''withdraw_funds()'' = ReadOnly \<and>
     classify_index ''EXPLAIN SELECT 1'' = Write \<and>
     classify_index ''SHOW search_path'' = Write \<and>
     classify_index [] = Write"
    by (simp add: js_string_defs classifier_defs)
  have sent:
    "callTool_index False d request =
       (if isReadonly queryText
        then (case unsafe d queryText of
                Inr result \<Rightarrow>
                  (Returns \<lparr>content = [text_block (Stringify result)], isError = None\<rparr>,
                   [Unsafe queryText])
              | Inl message \<Rightarrow>
                  (Returns
                     \<lparr>content = [text_block (Str (''Query error: '' @ message))],
                      isError = Some True\<rparr>,
                   [Unsafe queryText]))
        else (Returns refusal_index, []))"
    using assms by (simp add: callTool_index_def)
  show ?thesis
    using examples
    by (auto simp: sent isReadonly_def classify_index_def split: sum.splits)
qed

theorem whitelist_is_prefix_test_witness:
  "params_name (query_request ''sql'' ''withdraw_funds()'') = ''query'' \<and>
   parse_string_field ''sql'' (params_arguments (query_request ''sql'' ''withdraw_funds()'')) =
     Some ''withdraw_funds()'' \<and>
   prefix ''with'' (toLowerCase (trim ''withdraw_funds()'')) \<and>
   snd (callTool_index False shop_db (query_request ''sql'' ''withdraw_funds()'')) =
     [Unsafe ''withdraw_funds()''] \<and>
   params_name (query_request ''sql'' ''SHOW search_path'') = ''query'' \<and>
   parse_string_field ''sql'' (params_arguments (query_request ''sql'' ''SHOW search_path'')) =
     Some ''SHOW search_path'' \<and>
   \<not> prefix ''select'' (toLowerCase (trim ''SHOW search_path'')) \<and>
   \<not> prefix ''with'' (toLowerCase (trim ''SHOW search_path'')) \<and>
   callTool_index False shop_db (query_request ''sql'' ''SHOW search_path'') =
     (Returns refusal_index, [])"
proof -
  have w: "prefix ''with'' (toLowerCase (trim ''withdraw_funds()''))"
    by (simp add: js_string_defs)
  have s: "\<not> prefix ''select'' (toLowerCase (trim ''SHOW search_path'')) \<and>
           \<not> prefix ''with'' (toLowerCase (trim ''SHOW search_path''))"
    by (simp add: js_string_defs)
  note n = name_query_request
  note p = parse_query_request
  from whitelist_is_prefix_test [OF n p, of "''withdraw_funds()''" shop_db]
    whitelist_is_prefix_test [OF n p, of "''SHOW search_path''" shop_db]
  show ?thesis
    using w s by (simp add: n p)
qed

section \<open>The blacklist classifier\<close>

lemma dropWhile_rev_dropWhile:
  assumes "xs = [] \<or> \<not> P (hd xs)"
  shows "dropWhile P (rev (dropWhile P (rev xs))) = rev (dropWhile P (rev xs))"
proof (cases "rev (dropWhile P (rev xs))")
  case Nil
  show ?thesis unfolding Nil by simp
next
  case (Cons y ys)
  have "xs = rev (takeWhile P (rev xs) @ dropWhile P (rev xs))"
    by (simp only: takeWhile_dropWhile_id rev_rev_ident)
  then have "xs = rev (dropWhile P (rev xs)) @ rev (takeWhile P (rev xs))"
    by (simp only: rev_append)
  with Cons have "xs = y # ys @ rev (takeWhile P (rev xs))"
    by simp
  then have "hd xs = y" and "xs \<noteq> []"
    by (metis list.sel(1), metis list.distinct(1))
  with assms have "\<not> P y"
    by simp
  then show ?thesis
    unfolding Cons by simp
qed

text \<open>A trimmed text has no leading white space, so \<^verbatim>\<open>\s*\<close> matches nothing of it.\<close>

lemma trim_no_leading_space: "dropWhile isWhiteSpace (trim s) = trim s"
proof -
  have "dropWhile isWhiteSpace s = [] \<or> \<not> isWhiteSpace (hd (dropWhile isWhiteSpace s))"
    by (metis hd_dropWhile)
  then show ?thesis
    unfolding trim_def by (rule dropWhile_rev_dropWhile)
qed

lemma matches_alternative_iff:
  "matches_alternative k s \<longleftrightarrow>
     (\<exists>w c rest. s = w @ c # rest \<and> map canonicalize w = map canonicalize k \<and> isWhiteSpace c)"
proof
  assume m: "matches_alternative k s"
  then obtain c rest where d: "drop (length k) s = c # rest" and c: "isWhiteSpace c"
    by (auto simp: matches_alternative_def split: list.splits)
  have "s = take (length k) s @ c # rest"
    using d by (metis append_take_drop_id)
  moreover have "map canonicalize (take (length k) s) = map canonicalize k"
    using m by (simp add: matches_alternative_def)
  ultimately show
    "\<exists>w c rest. s = w @ c # rest \<and> map canonicalize w = map canonicalize k \<and> isWhiteSpace c"
    using c by blast
next
  assume "\<exists>w c rest. s = w @ c # rest \<and> map canonicalize w = map canonicalize k \<and> isWhiteSpace c"
  then obtain w c rest where s: "s = w @ c # rest"
    and w: "map canonicalize w = map canonicalize k" and c: "isWhiteSpace c"
    by blast
  from w have "length w = length k"
    by (metis length_map)
  with s w c show "matches_alternative k s"
    by (simp add: matches_alternative_def)
qed

text \<open>
  Claim C7, as stated, fails: \<^verbatim>\<open>DELETE/**/FROM t\<close> begins with the keyword DELETE, and
  \<^verbatim>\<open>isWriteOperation\<close> classifies it ReadOnly, since a comment and no white space
  follows the keyword.
\<close>

theorem write_keyword_without_space_is_readonly:
  "prefix ''DELETE'' (map canonicalize (trim ''DELETE/**/FROM t'')) \<and>
   classify_part000 ''DELETE/**/FROM t'' = ReadOnly"
  by (simp add: js_string_defs classifier_defs)

text \<open>
  Claim C7, amended. Under the blacklist policy a text is classified Write exactly when,
  after trimming, it begins with one of the eight keywords, in any mix of capitals and
  small letters, and a white space character stands right after the keyword; every
  other text is classified ReadOnly.
\<close>

theorem isWriteOperation_keyword_and_space:
  "classify_part000 query =
     (if \<exists>k \<in> set [''INSERT'', ''UPDATE'', ''DELETE'', ''CREATE'', ''DROP'', ''ALTER'',
                    ''TRUNCATE'', ''REPLACE''].
           \<exists>w c rest. trim query = w @ c # rest \<and> map canonicalize w = k \<and> isWhiteSpace c
      then Write else ReadOnly)"
proof -
  have k: "map canonicalize k = k" if "k \<in> set writeKeywords_alternatives" for k
    using that by (auto simp: writeKeywords_alternatives_def canonicalize_def)
  have "isWriteOperation query \<longleftrightarrow>
      (\<exists>k \<in> set writeKeywords_alternatives.
         \<exists>w c rest. trim query = w @ c # rest \<and> map canonicalize w = k \<and> isWhiteSpace c)"
    by (auto simp: isWriteOperation_def writeKeywords_test_def trim_no_leading_space
        list_ex_iff matches_alternative_iff k)
  then show ?thesis
    by (simp add: classify_part000_def writeKeywords_alternatives_def)
qed

section \<open>The tool description\<close>

text \<open>
  Claim C8, as stated, fails on \<^verbatim>\<open>src/index.ts\<close>: its description is the same text
  with the flag on and off.
\<close>

theorem listTools_index_description_fixed:
  "map t_description (listTools_index True) = map t_description (listTools_index False)"
  by (simp add: listTools_index_def)

text \<open>
  Claim C8, amended. Both variants list the single tool \<^verbatim>\<open>query\<close>. In \<^verbatim>\<open>part_000\<close>
  its description with the flag on differs from the one with the flag off; in
  \<^verbatim>\<open>src/index.ts\<close> the whole list is the same for both values of the flag.
\<close>

theorem listTools_description_by_variant:
  "map t_name (listTools_part000 True) = [''query''] \<and>
   map t_name (listTools_part000 False) = [''query''] \<and>
   map t_description (listTools_part000 True) \<noteq> map t_description (listTools_part000 False) \<and>
   map t_name (listTools_index allow) = [''query''] \<and>
   listTools_index True = listTools_index False"
  by (simp add: listTools_part000_def listTools_index_def)

section \<open>Listing the tables\<close>

text \<open>
  Claim C5, as stated, fails on \<^verbatim>\<open>src/index.ts\<close>: when the catalog query is rejected,
  the handler throws the rejection.
\<close>

theorem listResources_index_throws:
  "listResources_index offline_db =
     (Throws (PostgresError ''connection refused''), [SelectTables])"
  by (simp add: listResources_index_def offline_db_def)

text \<open>
  Claim C5, amended. When the catalog query is rejected, \<^verbatim>\<open>part_000\<close> returns the
  empty list of resources, while \<^verbatim>\<open>src/index.ts\<close>, which has no catch, throws the
  error of the driver.
\<close>

theorem listResources_on_catalog_failure:
  assumes "information_schema_tables d = Inl message"
  shows "listResources_part000 d = (Returns [], [SelectBaseTables]) \<and>
         listResources_index d = (Throws (PostgresError message), [SelectTables])"
  using assms by (simp add: listResources_part000_def listResources_index_def getTables_def)

theorem listResources_on_catalog_failure_witness:
  "information_schema_tables offline_db = Inl ''connection refused'' \<and>
   listResources_part000 offline_db = (Returns [], [SelectBaseTables])"
proof -
  have h: "information_schema_tables offline_db = Inl ''connection refused''"
    by (simp add: offline_db_def)
  from listResources_on_catalog_failure [OF h] show ?thesis
    by (simp add: h)
qed

text \<open>
  Claim C9, as stated, fails on \<^verbatim>\<open>src/index.ts\<close>: on the shop catalog it lists the view
  \<^verbatim>\<open>active_customers\<close>, and the names come in the order of the scan, which is not
  ascending.
\<close>

theorem listResources_index_lists_view_unsorted:
  "listResources_index shop_db =
     (Returns (map resource_index [''orders'', ''customers'', ''active_customers'']),
      [SelectTables]) \<and>
   \<lparr>table_schema = ''public'', table_name = ''active_customers'', table_type = ''VIEW''\<rparr>
     \<in> set shop_tables \<and>
   \<not> sorted [''orders'', ''customers'', ''active_customers'']"
  by (simp add: listResources_index_def shop_db_def shop_tables_def select_tables_def)

text \<open>
  Claim C9, amended. For every content of the catalog, \<^verbatim>\<open>getTables\<close> of \<^verbatim>\<open>part_000\<close>
  returns the names of the base tables of the schema \<^verbatim>\<open>public\<close>, one for each such
  row and no other, in ascending order, and its resources are listed in that order;
  \<^verbatim>\<open>src/index.ts\<close> lists every relation of \<^verbatim>\<open>public\<close>, views included, in the order
  of the scan.
\<close>

theorem getTables_base_tables_sorted:
  assumes "information_schema_tables d = Inr rows"
  shows "\<exists>tables. getTables d = Inr tables \<and> sorted tables \<and>
           set tables =
             table_name ` {r \<in> set rows. table_schema r = ''public'' \<and> table_type r = ''BASE TABLE''} \<and>
           length tables =
             length (filter (\<lambda>r. table_schema r = ''public'' \<and> table_type r = ''BASE TABLE'') rows) \<and>
           listResources_part000 d = (Returns (map resource_part000 tables), [SelectBaseTables]) \<and>
           listResources_index d =
             (Returns (map resource_index
                (map table_name (filter (\<lambda>r. table_schema r = ''public'') rows))),
              [SelectTables])"
  using assms
  by (simp add: getTables_def select_base_tables_def select_tables_def listResources_part000_def
      listResources_index_def)

theorem getTables_base_tables_sorted_witness:
  "information_schema_tables shop_db = Inr shop_tables \<and>
   getTables shop_db = Inr [''customers'', ''orders''] \<and>
   sorted [''customers'', ''orders''] \<and>
   listResources_part000 shop_db =
     (Returns (map resource_part000 [''customers'', ''orders'']), [SelectBaseTables])"
proof -
  have h: "information_schema_tables shop_db = Inr shop_tables"
    by (simp add: shop_db_def)
  have g: "getTables shop_db = Inr [''customers'', ''orders'']"
    by (simp add: getTables_def h select_base_tables_def shop_tables_def)
  from getTables_base_tables_sorted [OF h] show ?thesis
    by (simp add: h g)
qed

section \<open>Reading a table\<close>

lemmas url_defs =
  simple_url_def new_URL_def isSchemeChar_def isPlainChar_def isAsciiAlpha_def
  isAsciiAlphanumeric_def special_schemes_def serialize_path_def tableName_of_pathname_def
  no_other_url_def

text \<open>
  Claim C4, as stated, fails on \<^verbatim>\<open>src/index.ts\<close>: the catalog of the shop has no
  relation \<^verbatim>\<open>nonexistent_table\<close>, and the handler sends the column query and the
  sample for it and throws the rejection of the sample. The first URI has the shape the
  handler's own extraction expects, the second the shape its listing builds.
\<close>

theorem readResource_index_samples_unknown_table:
  "''nonexistent_table'' \<notin> set (select_tables shop_tables) \<and>
   readResource_index no_other_url shop_db ''postgres://table/table/nonexistent_table'' =
     (Throws (PostgresError ''relation does not exist''),
      [SelectColumns ''nonexistent_table'', SelectSample ''nonexistent_table'' 10]) \<and>
   readResource_index no_other_url shop_db ''postgres://table/nonexistent_table'' =
     (Throws (PostgresError ''relation does not exist''),
      [SelectColumns ''/nonexistent_table'', SelectSample ''/nonexistent_table'' 10])"
  by (simp add: url_defs js_string_defs readResource_index_def shop_db_def Let_def
      select_tables_def shop_tables_def)

text \<open>
  Claim C4, amended. In \<^verbatim>\<open>part_000\<close>, for every URI that matches the pattern and
  names a table that \<^verbatim>\<open>getTables\<close> does not return, \<^verbatim>\<open>readResource\<close> throws the
  error "Error reading table t: Table not found: t" after the catalog query alone, with
  no sample sent. \<^verbatim>\<open>src/index.ts\<close> does not look the name up: for every URI that the
  URL constructor accepts with the protocol \<^verbatim>\<open>postgres:\<close>, it sends the column query
  and, when that succeeds, the sample limited to 10 rows, for the name it extracts.
\<close>

theorem readResource_unknown_table:
  "(match_table_uri uri = Some tableName \<and> getTables d = Inr tables \<and>
    tableName \<notin> set tables \<longrightarrow>
      readResource_part000 d uri =
        (Throws (Error (''Error reading table '' @ tableName @ '': Table not found: '' @ tableName)),
         [SelectBaseTables])) \<and>
   (new_URL other uri = Some u \<and> protocol u = ''postgres:'' \<and>
    select_columns d (tableName_of_pathname (pathname u)) = Inr columns \<longrightarrow>
      snd (readResource_index other d uri) =
        [SelectColumns (tableName_of_pathname (pathname u)),
         SelectSample (tableName_of_pathname (pathname u)) 10])"
  by (auto simp: readResource_part000_def readTable_part000_def readResource_index_def Let_def
      split: sum.splits)

theorem readResource_unknown_table_witness:
  "match_table_uri ''table:///nonexistent_table'' = Some ''nonexistent_table'' \<and>
   getTables shop_db = Inr [''customers'', ''orders''] \<and>
   ''nonexistent_table'' \<notin> set [''customers'', ''orders''] \<and>
   readResource_part000 shop_db ''table:///nonexistent_table'' =
     (Throws (Error ''Error reading table nonexistent_table: Table not found: nonexistent_table''),
      [SelectBaseTables]) \<and>
   new_URL no_other_url ''postgres://table/table/orders'' =
     Some \<lparr>protocol = ''postgres:'', host = ''table'', pathname = ''/table/orders''\<rparr> \<and>
   select_columns shop_db ''orders'' = Inr ''columns'' \<and>
   snd (readResource_index no_other_url shop_db ''postgres://table/table/orders'') =
     [SelectColumns ''orders'', SelectSample ''orders'' 10]"
proof -
  have m: "match_table_uri ''table:///nonexistent_table'' = Some ''nonexistent_table''"
    by (simp add: match_table_uri_def isLineTerminator_def)
  have g: "getTables shop_db = Inr [''customers'', ''orders'']"
    by (simp add: getTables_def shop_db_def select_base_tables_def shop_tables_def)
  have u: "new_URL no_other_url ''postgres://table/table/orders'' =
     Some \<lparr>protocol = ''postgres:'', host = ''table'', pathname = ''/table/orders''\<rparr>"
    by (simp add: url_defs js_string_defs)
  have c: "select_columns shop_db ''orders'' = Inr ''columns''"
    by (simp add: shop_db_def)
  have t: "tableName_of_pathname ''/table/orders'' = ''orders''"
    by (simp add: tableName_of_pathname_def)
  from readResource_unknown_table [of "''table:///nonexistent_table''" "''nonexistent_table''"
      shop_db "[''customers'', ''orders'']" no_other_url
      "\<lparr>protocol = ''postgres:'', host = ''table'', pathname = ''/table/orders''\<rparr>" "''columns''"]
    readResource_unknown_table [of "''postgres://table/table/orders''" "''nonexistent_table''"
      shop_db "[''customers'', ''orders'']" no_other_url
      "\<lparr>protocol = ''postgres:'', host = ''table'', pathname = ''/table/orders''\<rparr>" "''columns''"]
  show ?thesis
    by (simp add: m g u c t)
qed

section \<open>From a listed resource back to its table\<close>

text \<open>Both listings hold one resource for each name the catalog query returns, in its order.\<close>

lemma listResources_one_per_table:
  assumes "information_schema_tables d = Inr rows"
  shows "fst (listResources_part000 d) = Returns (map resource_part000 (select_base_tables rows)) \<and>
         fst (listResources_index d) = Returns (map resource_index (select_tables rows))"
  using assms by (simp add: listResources_part000_def listResources_index_def getTables_def)

text \<open>
  In \<^verbatim>\<open>part_000\<close> the pattern of \<^verbatim>\<open>readResource\<close> gives back the name a resource was
  built from, for every name that is not empty and holds no line terminator.
\<close>

lemma match_table_uri_built:
  assumes "table \<noteq> []" and "list_all (\<lambda>c. \<not> isLineTerminator c) table"
  shows "match_table_uri (r_uri (resource_part000 table)) = Some table"
  using assms by (simp add: match_table_uri_def resource_part000_def)

text \<open>A name with a line feed in it is listed and not read back: the pattern rejects its URI.\<close>

lemma match_table_uri_line_feed:
  "match_table_uri (r_uri (resource_part000 [CHR ''a'', CHR 0x0A, CHR ''b''])) = None"
  by (simp add: match_table_uri_def resource_part000_def isLineTerminator_def)

lemma split_slash_no_slash: "CHR ''/'' \<notin> set s \<Longrightarrow> split_slash s = [s]"
  by (induction s) auto

lemma prefix_table_slash: "prefix ''table/'' s \<Longrightarrow> CHR ''/'' \<in> set s"
  by (auto simp: prefix_def)

text \<open>
  In \<^verbatim>\<open>src/index.ts\<close> the URI built for a name of letters, digits and underscores has
  the host \<^verbatim>\<open>table\<close> and the path \<^verbatim>\<open>/name\<close>; the pattern \<^verbatim>\<open>/^\/table\//\<close> does not
  match that path, and the name read back keeps the slash.
\<close>

lemma identifier_read_back_index:
  assumes "list_all (\<lambda>c. isAsciiAlphanumeric c \<or> c = CHR ''_'') name"
  shows "new_URL other (r_uri (resource_index name)) =
           Some \<lparr>protocol = ''postgres:'', host = ''table'', pathname = CHR ''/'' # name\<rparr> \<and>
         tableName_of_pathname (CHR ''/'' # name) = CHR ''/'' # name"
proof -
  have plain: "list_all isPlainChar name"
    using assms by (auto simp: list_all_iff isPlainChar_def)
  have noslash: "CHR ''/'' \<notin> set name"
    using assms by (auto simp: list_all_iff isAsciiAlphanumeric_def isAsciiAlpha_def)
  have nodot: "name \<noteq> ''..''" "name \<noteq> ''.''"
    using assms by (auto simp: isAsciiAlphanumeric_def isAsciiAlpha_def)
  have path: "path_state [] (split_slash name) = [name]"
    using nodot by (simp add: split_slash_no_slash [OF noslash])
  have all: "list_all (\<lambda>c. isPlainChar c \<or> c = CHR ''/'') name"
    using plain by (auto simp: list_all_iff)
  have "simple_url (''postgres://table/'' @ name) =
          Some \<lparr>protocol = ''postgres:'', host = ''table'', pathname = CHR ''/'' # name\<rparr>"
    using all
    by (simp add: simple_url_def isSchemeChar_def isPlainChar_def isAsciiAlpha_def
        isAsciiAlphanumeric_def special_schemes_def serialize_path_def js_string_defs path)
  moreover have "\<not> prefix ''/table/'' (CHR ''/'' # name)"
    using noslash prefix_table_slash [of name] by auto
  ultimately show ?thesis
    by (simp add: new_URL_def resource_index_def tableName_of_pathname_def)
qed

text \<open>
  Claim C3 on \<^verbatim>\<open>src/index.ts\<close>, at the table \<^verbatim>\<open>orders\<close> of the shop: the URI listed
  for it is \<^verbatim>\<open>postgres://table/orders\<close>, whose path is \<^verbatim>\<open>/orders\<close>, so the name read
  back is \<^verbatim>\<open>/orders\<close> and not \<^verbatim>\<open>orders\<close>, and reading the listed resource ends in
  the rejection of a sample of the relation \<^verbatim>\<open>/orders\<close>.
\<close>

theorem listed_uri_read_back_index:
  "r_uri (resource_index ''orders'') = ''postgres://table/orders'' \<and>
   new_URL no_other_url ''postgres://table/orders'' =
     Some \<lparr>protocol = ''postgres:'', host = ''table'', pathname = ''/orders''\<rparr> \<and>
   tableName_of_pathname ''/orders'' = ''/orders'' \<and>
   readResource_index no_other_url shop_db (r_uri (resource_index ''orders'')) =
     (Throws (PostgresError ''relation does not exist''),
      [SelectColumns ''/orders'', SelectSample ''/orders'' 10])"
  by (simp add: url_defs js_string_defs readResource_index_def shop_db_def Let_def
      resource_index_def)

end
